theory Spec2Isabelle
  imports Main
begin

section \<open>Values and errors\<close>

text \<open>
  A JavaScript string is modelled as a \<open>string\<close>, one \<open>char\<close> per code unit (code
  units below 256). A value that may be \<open>undefined\<close> or \<open>null\<close> is an \<open>option\<close>.

  The values that a lookup in a stage mapping can yield are strings and, for a name
  that the mapping inherits from \<open>Object.prototype\<close> (\<open>constructor\<close>, \<open>toString\<close>,
  \<open>__proto__\<close>, ...), a function or an object. \<open>Str s\<close> is the string \<open>s\<close>; \<open>Obj s\<close> is
  a value that is not a string, whose conversion to a string is \<open>s\<close>. \<open>key_of\<close> is that
  conversion, which JavaScript applies to a value used as a property key or placed in
  a template literal.

  Every \<open>throw\<close> of the source is a value of \<open>error\<close>: \<open>Error msg\<close> is
  \<open>new Error(msg)\<close>, \<open>StageNotFound name\<close> is \<open>new StageNotFound(name)\<close>,
  \<open>TypeError\<close> is what the runtime raises when a property is read from \<open>null\<close> or
  \<open>undefined\<close>, and \<open>RangeError\<close> is what it raises when a recursion exhausts the call
  stack.
\<close>

datatype error = Error string | StageNotFound string | TypeError | RangeError

datatype jsval = Str string | Obj string

fun key_of :: "jsval \<Rightarrow> string" where
  "key_of (Str s) = s"
| "key_of (Obj s) = s"

text \<open>
  JavaScript truthiness: \<open>undefined\<close> and the empty string are falsy; every other
  string, every function and every object is truthy.
\<close>

fun truthy :: "jsval option \<Rightarrow> bool" where
  "truthy None = False"
| "truthy (Some (Str s)) = (s \<noteq> [])"
| "truthy (Some (Obj s)) = True"

fun truthy_string :: "string option \<Rightarrow> bool" where
  "truthy_string None = False"
| "truthy_string (Some s) = (s \<noteq> [])"

text \<open>
  An object used as a dictionary (\<open>{ [key: string]: string }\<close>) is the association
  list of its own entries, in the order in which the object enumerates them. The stage
  mappings are plain objects, so
  \<open>obj[k]\<close> is the own entry for \<open>k\<close> if there is one and the property \<open>k\<close> of
  \<open>Object.prototype\<close> otherwise. The properties of \<open>Object.prototype\<close> are a parameter
  of the model, again an association list; \<open>object_prototype\<close> is the one of Node.js.
\<close>

type_synonym Stages = "(string \<times> jsval) list"

type_synonym prototype = "(string \<times> jsval) list"

definition js_get :: "prototype \<Rightarrow> Stages \<Rightarrow> string \<Rightarrow> jsval option" where
  "js_get proto obj k = (case map_of obj k of Some v \<Rightarrow> Some v | None \<Rightarrow> map_of proto k)"

definition native_function :: "string \<Rightarrow> jsval" where
  "native_function f = Obj (''function '' @ f @ ''() { [native code] }'')"

definition object_prototype :: prototype where
  "object_prototype =
     [(''constructor'', native_function ''Object''),
      (''__defineGetter__'', native_function ''__defineGetter__''),
      (''__defineSetter__'', native_function ''__defineSetter__''),
      (''hasOwnProperty'', native_function ''hasOwnProperty''),
      (''__lookupGetter__'', native_function ''__lookupGetter__''),
      (''__lookupSetter__'', native_function ''__lookupSetter__''),
      (''isPrototypeOf'', native_function ''isPrototypeOf''),
      (''propertyIsEnumerable'', native_function ''propertyIsEnumerable''),
      (''toString'', native_function ''toString''),
      (''valueOf'', native_function ''valueOf''),
      (''__proto__'', Obj ''[object Object]''),
      (''toLocaleString'', native_function ''toLocaleString'')]"

section \<open>Alias resolution\<close>

text \<open>
  \<^verbatim>\<open>
  private resolveStage = (stage, stages): string =>
    stages[stage] ? this.resolveStage(stages[stage], stages) : stage
  \<close>
  The recursion has no bound, so the function is partial: \<open>None\<close> means that the call
  does not return a value.
\<close>

partial_function (option) resolveStage :: "prototype \<Rightarrow> jsval \<Rightarrow> Stages \<Rightarrow> jsval option" where
  "resolveStage proto stage stages =
     (if truthy (js_get proto stages (key_of stage))
      then resolveStage proto (the (js_get proto stages (key_of stage))) stages
      else Some stage)"

declare resolveStage.simps [code]

text \<open>
  lodash's \<open>mapValues(object, iteratee)\<close>: a new object with the same keys, in the same
  order, whose values are the results of the iteratee; it returns only if every call of
  the iteratee returns.
\<close>

fun mapValues :: "('v \<Rightarrow> 'w option) \<Rightarrow> ('k \<times> 'v) list \<Rightarrow> ('k \<times> 'w) list option" where
  "mapValues f [] = Some []"
| "mapValues f ((k, v) # kvs) =
     (case f v of
        None \<Rightarrow> None
      | Some w \<Rightarrow> (case mapValues f kvs of None \<Rightarrow> None | Some r \<Rightarrow> Some ((k, w) # r)))"

text \<open>
  \<^verbatim>\<open>
  private resolveStageAliases = stages =>
    mapValues(stages, target => this.resolveStage(target, stages))
  \<close>
\<close>

definition resolveStageAliases :: "prototype \<Rightarrow> Stages \<Rightarrow> Stages option" where
  "resolveStageAliases proto stages =
     mapValues (\<lambda>target. resolveStage proto target stages) stages"

text \<open>
  The relations the claims about the resolver speak of. \<open>lookup_step m\<close> is one lookup
  among the entries of the mapping; \<open>alias_step proto m\<close> is one lookup that the
  resolver follows, that is, one whose result, an own entry or an inherited property,
  is truthy. A value is \<open>terminal\<close> when the resolver stops at it.
\<close>

definition lookup_step :: "Stages \<Rightarrow> (jsval \<times> jsval) set" where
  "lookup_step m = {(s, t). map_of m (key_of s) = Some t}"

definition alias_step :: "prototype \<Rightarrow> Stages \<Rightarrow> (jsval \<times> jsval) set" where
  "alias_step proto m = {(s, t). js_get proto m (key_of s) = Some t \<and> truthy (Some t)}"

definition terminal :: "prototype \<Rightarrow> Stages \<Rightarrow> jsval \<Rightarrow> bool" where
  "terminal proto m v = (\<not> truthy (js_get proto m (key_of v)))"

section \<open>The definition, the instance and its collaborators\<close>

text \<open>
  Modelled from the spec: the type \<open>GraphcoolDefinition\<close> is imported from the package
  \<open>graphcool-json-schema\<close> and is not part of the sources at hand. Its fields are those
  of the spec's data model: \<open>stages\<close> (a mapping from stage name to cluster name or stage
  name), \<open>datamodel\<close> (one path or an ordered list of paths), \<open>secret\<close> (a string or
  absent) and \<open>disableAuth\<close> (a boolean or absent). \<open>load\<close> replaces \<open>stages\<close> by
  the result of the resolver, whose values are whatever the lookups yield.
\<close>

datatype datamodel_paths = OnePath string | ManyPaths "string list"

record graphcool_definition =
  stages :: Stages
  datamodel :: datamodel_paths
  secret :: "string option"
  disableAuth :: "bool option"

text \<open>
  The fields of \<open>GraphcoolDefinitionClass\<close> that the methods read and write. The field
  \<open>definition\<close> of the source is \<open>defn\<close> here. \<open>Config\<close> contributes
  \<open>definitionPath\<close> and \<open>definitionDir\<close>; \<open>Environment\<close> contributes the names of its
  clusters.
\<close>

record instance_state =
  defn :: "graphcool_definition option"
  typesString :: "string option"
  rawStages :: "Stages option"
  secrets :: "string list option"
  definitionString :: "string option"

record Config =
  definitionPath :: "string option"
  definitionDir :: string

record Environment =
  clusters :: "string list"

text \<open>
  The constructor sets \<open>secrets\<close> to \<open>null\<close> and leaves the other fields undefined.
\<close>

definition new_instance :: instance_state where
  "new_instance =
     \<lparr>defn = None, typesString = None, rawStages = None, secrets = None,
      definitionString = None\<rparr>"

text \<open>
  The collaborators that \<open>load\<close> calls are parameters: \<open>readDefinition\<close> (the parser
  with schema validation, closed over \<open>out\<close> and \<open>args\<close>), \<open>fs.readFileSync\<close>,
  \<open>fs.existsSync\<close> and \<open>path.join\<close>. A collaborator that throws returns \<open>Inl\<close>.
\<close>

record collaborators =
  readDefinition :: "string \<Rightarrow> error + graphcool_definition"
  readFileSync :: "string \<Rightarrow> error + string"
  existsSync :: "string \<Rightarrow> bool"
  path_join :: "string \<Rightarrow> string \<Rightarrow> string"

section \<open>Cluster validation and schema assembly\<close>

text \<open>
  \<^verbatim>\<open>
  Object.keys(definition.stages).forEach(stageName => {
    const referredCluster = definition.stages[stageName]
    if (!env.clusters.find(c => c.name === referredCluster)) {
      throw new Error(`Could not find cluster '${referredCluster}', which is used in stage '${stageName}'.`)
    }
  })
  \<close>
  The loop visits the entries in order and stops at the first throw; \<open>None\<close> is normal
  completion. A cluster name is a string, so \<open>===\<close> holds for no value that is not a
  string; the template literal converts the value to a string.
\<close>

definition cluster_message :: "string \<Rightarrow> string \<Rightarrow> string" where
  "cluster_message referredCluster stageName =
     ''Could not find cluster '' @ [CHR 0x27] @ referredCluster @ [CHR 0x27] @
     '', which is used in stage '' @ [CHR 0x27] @ stageName @ [CHR 0x27] @ ''.''"

fun ensureOfClusters :: "Stages \<Rightarrow> Environment \<Rightarrow> error option" where
  "ensureOfClusters [] env = None"
| "ensureOfClusters ((stageName, referredCluster) # rest) env =
     (if referredCluster \<notin> set (map Str (clusters env))
      then Some (Error (cluster_message (key_of referredCluster) stageName))
      else ensureOfClusters rest env)"

text \<open>
  \<^verbatim>\<open>
  typesPaths.forEach(unresolvedTypesPath => {
    const typesPath = path.join(this.config.definitionDir, unresolvedTypesPath)
    if (fs.existsSync(typesPath)) {
      const types = fs.readFileSync(typesPath, 'utf-8')
      allTypes += types + '\n'
    } else {
      throw new Error(`The types definition file "${typesPath}" could not be found.`)
    }
  })
  return allTypes
  \<close>
\<close>

definition types_message :: "string \<Rightarrow> string" where
  "types_message typesPath =
     ''The types definition file '' @ [CHR 0x22] @ typesPath @ [CHR 0x22] @
     '' could not be found.''"

fun readTypes :: "collaborators \<Rightarrow> string \<Rightarrow> string list \<Rightarrow> string \<Rightarrow> error + string" where
  "readTypes io dir [] allTypes = Inr allTypes"
| "readTypes io dir (unresolvedTypesPath # rest) allTypes =
     (let typesPath = path_join io dir unresolvedTypesPath in
      if existsSync io typesPath
      then (case readFileSync io typesPath of
              Inl e \<Rightarrow> Inl e
            | Inr types \<Rightarrow> readTypes io dir rest (allTypes @ types @ [CHR 0x0A]))
      else Inl (Error (types_message typesPath)))"

definition getTypesString ::
  "collaborators \<Rightarrow> Config \<Rightarrow> graphcool_definition \<Rightarrow> error + string" where
  "getTypesString io config d =
     readTypes io (definitionDir config)
       (case datamodel d of OnePath p \<Rightarrow> [p] | ManyPaths ps \<Rightarrow> ps) []"

section \<open>Secrets\<close>

text \<open>
  \<open>secret.replace(/\s/g, '').split(',')\<close>. The class \<open>\s\<close> on code units below 256 is
  TAB, LF, VT, FF, CR, SPACE and NO-BREAK SPACE. \<open>split\<close> on a separator always returns
  at least one piece: the empty string splits into one empty piece.
\<close>

definition isSpace :: "char \<Rightarrow> bool" where
  "isSpace c =
     (c \<in> set [CHR 0x09, CHR 0x0A, CHR 0x0B, CHR 0x0C, CHR 0x0D, CHR 0x20, CHR 0xA0])"

definition removeWhitespace :: "string \<Rightarrow> string" where
  "removeWhitespace s = filter (\<lambda>c. \<not> isSpace c) s"

fun js_split :: "char \<Rightarrow> string \<Rightarrow> string list" where
  "js_split sep [] = [[]]"
| "js_split sep (c # cs) =
     (if c = sep then [] # js_split sep cs
      else (case js_split sep cs of
              [] \<Rightarrow> [[c]]
            | piece # pieces \<Rightarrow> (c # piece) # pieces))"

definition parseSecrets :: "string option \<Rightarrow> string list option" where
  "parseSecrets raw =
     (if truthy_string raw then Some (js_split (CHR '','') (removeWhitespace (the raw)))
      else None)"

definition missing_secret_message :: string where
  "missing_secret_message =
     ''Please either provide a secret in your graphcool.yml or disableAuth: true''"

definition no_definition_message :: string where
  "no_definition_message = ''Please create a graphcool.yml''"

section \<open>load\<close>

text \<open>
  \<^verbatim>\<open>
  async load(env: Environment, args: Args, envPath?: string) {
    if (this.config.definitionPath) {
      dotenv.config({ path: envPath })
      this.definition = await readDefinition(this.config.definitionPath, this.out, args)
      this.definitionString = fs.readFileSync(this.config.definitionPath, 'utf-8')
      this.rawStages = this.definition.stages
      this.definition.stages = this.resolveStageAliases(this.definition.stages)
      this.ensureOfClusters(this.definition, env)
      this.typesString = this.getTypesString(this.definition)
      this.secrets = this.definition.secret
        ? this.definition.secret.replace(/\s/g, '').split(',')
        : null
      if (this.secrets === null && !this.definition.disableAuth) {
        throw new Error('Please either provide a secret in your graphcool.yml or disableAuth: true')
      }
    } else {
      throw new Error(`Please create a graphcool.yml`)
    }
  }
  \<close>
  \<open>load\<close> assigns the fields of the instance one after the other and throws where a
  step fails, so the model returns the error, if any, together with the state of the
  instance at that moment. Where the recursion of \<open>resolveStage\<close> does not return, the
  engine exhausts its call stack and raises \<open>RangeError\<close>, which leaves \<open>load\<close> before
  the resolved stages are assigned. \<open>dotenv.config\<close> changes the environment of the
  process only, which is not part of the state.
\<close>

definition load ::
  "prototype \<Rightarrow> collaborators \<Rightarrow> Config \<Rightarrow> Environment \<Rightarrow> instance_state \<Rightarrow>
   error option \<times> instance_state" where
  "load proto io config env st =
     (if truthy_string (definitionPath config) then
        (case readDefinition io (the (definitionPath config)) of
           Inl e \<Rightarrow> (Some e, st)
         | Inr d \<Rightarrow>
             let st1 = st\<lparr>defn := Some d\<rparr> in
             (case readFileSync io (the (definitionPath config)) of
                Inl e \<Rightarrow> (Some e, st1)
              | Inr text \<Rightarrow>
                  let st2 = st1\<lparr>definitionString := Some text, rawStages := Some (stages d)\<rparr> in
                  (case resolveStageAliases proto (stages d) of
                     None \<Rightarrow> (Some RangeError, st2)
                   | Some resolved \<Rightarrow>
                       let d' = d\<lparr>stages := resolved\<rparr>;
                           st3 = st2\<lparr>defn := Some d'\<rparr> in
                       (case ensureOfClusters (stages d') env of
                          Some e \<Rightarrow> (Some e, st3)
                        | None \<Rightarrow>
                            (case getTypesString io config d' of
                               Inl e \<Rightarrow> (Some e, st3)
                             | Inr types \<Rightarrow>
                                 let st4 = st3\<lparr>typesString := Some types\<rparr>;
                                     st5 = st4\<lparr>secrets := parseSecrets (secret d')\<rparr> in
                                 if secrets st5 = None \<and> disableAuth d' \<noteq> Some True
                                 then (Some (Error missing_secret_message), st5)
                                 else (None, st5))))))
      else (Some (Error no_definition_message), st))"

text \<open>
  The steps of \<open>load\<close> that come before the secrets all succeed: a definition path is
  configured, \<open>readDefinition\<close> returns \<open>d\<close>, the text of the file is read, the
  aliases resolve to \<open>resolved\<close>, every resolved cluster is known, and the type files
  are assembled into \<open>types\<close>.
\<close>

definition passes_until_secrets ::
  "prototype \<Rightarrow> collaborators \<Rightarrow> Config \<Rightarrow> Environment \<Rightarrow> graphcool_definition \<Rightarrow> string \<Rightarrow> Stages \<Rightarrow>
   string \<Rightarrow> bool" where
  "passes_until_secrets proto io config env d text resolved types \<longleftrightarrow>
     truthy_string (definitionPath config) \<and>
     readDefinition io (the (definitionPath config)) = Inr d \<and>
     readFileSync io (the (definitionPath config)) = Inr text \<and>
     resolveStageAliases proto (stages d) = Some resolved \<and>
     ensureOfClusters resolved env = None \<and>
     getTypesString io config (d\<lparr>stages := resolved\<rparr>) = Inr types"

section \<open>Accessors\<close>

text \<open>
  \<^verbatim>\<open>
  getStage(name: string, throws: boolean = false): string | undefined {
    const stage = this.definition &&
      (this.definition.stages[name] || this.definition.stages.default)
    if (!throws) { return stage }
    if (!stage) { throw new StageNotFound(name) }
    return stage
  }
  \<close>
\<close>

definition getStage ::
  "prototype \<Rightarrow> instance_state \<Rightarrow> string \<Rightarrow> bool \<Rightarrow> error + jsval option" where
  "getStage proto st name throws =
     (let stage =
        (case defn st of
           None \<Rightarrow> None
         | Some d \<Rightarrow>
             if truthy (js_get proto (stages d) name) then js_get proto (stages d) name
             else js_get proto (stages d) ''default'')
      in if \<not> throws then Inr stage
         else if \<not> truthy stage then Inl (StageNotFound name)
         else Inr stage)"

text \<open>
  \<^verbatim>\<open>
  get default(): string | null {
    if (this.definition && this.definition.stages && this.definition.stages.default) {
      return this.definition.stages.default
    }
    return null
  }
  \<close>
  \<open>None\<close> is the getter's \<open>null\<close>.
\<close>

definition default_stage :: "prototype \<Rightarrow> instance_state \<Rightarrow> jsval option" where
  "default_stage proto st =
     (case defn st of
        None \<Rightarrow> None
      | Some d \<Rightarrow>
          if truthy (js_get proto (stages d) ''default'') then js_get proto (stages d) ''default''
          else None)"

section \<open>Token issuance\<close>

text \<open>
  \<^verbatim>\<open>
  getToken(serviceName: string, stageName: string): string | undefined {
    if (this.secrets) {
      const data = { data: { service: `${serviceName}@${stageName}`, roles: ['admin'] } }
      console.log(data, this.secrets[0])
      return jwt.sign(data, this.secrets[0], { expiresIn: '1h' })
    }
    return undefined
  }
  \<close>
  \<open>jwt.sign\<close> is a parameter; what it returns is the token. The model returns the
  arguments of every \<open>console.log\<close> call next to the result. An array is truthy even
  when it is empty, and \<open>this.secrets[0]\<close> is then \<open>undefined\<close>.
\<close>

datatype json = JString string | JArray "json list" | JObject "(string \<times> json) list"

record sign_options =
  expiresIn :: string

definition getToken ::
  "(json \<Rightarrow> string option \<Rightarrow> sign_options \<Rightarrow> 'token) \<Rightarrow> instance_state \<Rightarrow> string \<Rightarrow> string \<Rightarrow>
   (json \<times> string option) list \<times> 'token option" where
  "getToken jwt_sign st serviceName stageName =
     (case secrets st of
        Some ss \<Rightarrow>
          let payload =
                JObject [(''data'',
                  JObject [(''service'', JString (serviceName @ ''@'' @ stageName)),
                           (''roles'', JArray [JString ''admin''])])];
              first = (case ss of [] \<Rightarrow> None | s # _ \<Rightarrow> Some s)
          in ([(payload, first)], Some (jwt_sign payload first \<lparr>expiresIn = ''1h''\<rparr>))
      | None \<Rightarrow> ([], None))"

section \<open>Patching the text of the definition\<close>

text \<open>
  \<open>yamlParser.safeLoad\<close> is a parameter. Of the tree it returns the method reads the
  top-level \<open>mappings\<close>, and of each mapping \<open>key.value\<close>, \<open>endPosition\<close> and the
  positions of the node \<open>value\<close>, which is \<open>null\<close> for an entry without a value. The
  parameter returns \<open>None\<close> when the result has no array \<open>mappings\<close> (no document, a
  scalar or a sequence at the top level). Positions are indices into the text.
\<close>

record yaml_node =
  startPosition :: nat
  endPosition :: nat

record yaml_mapping = yaml_node +
  key_value :: string
  val :: "yaml_node option"

text \<open>\<open>s.slice(from, to)\<close> and \<open>s.slice(from)\<close> for indices that are not negative.\<close>

definition slice :: "string \<Rightarrow> nat \<Rightarrow> nat \<Rightarrow> string" where
  "slice s from to = take (to - from) (drop from s)"

definition slice_from :: "string \<Rightarrow> nat \<Rightarrow> string" where
  "slice_from s from = drop from s"

text \<open>
  \<^verbatim>\<open>
  insertToDefinition(file: string, key: string, insertion: string) {
    const obj = yamlParser.safeLoad(file)
    const mapping = obj.mappings.find(m => m.key.value === key)
    if (mapping) {
      const end = mapping.endPosition
      const newFile = file.slice(0, end) + insertion + file.slice(end)
      const valueStart = mapping.value.startPosition
      const valueEnd = mapping.value.endPosition
      if (mapping.value && valueEnd - valueStart < 4) {
        return newFile.slice(0, valueStart) + newFile.slice(valueEnd)
      }
      return newFile
    } else {
      return file + `\n${key}: ` + insertion
    }
  }
  \<close>
  \<open>mapping.value.startPosition\<close> is read before \<open>mapping.value\<close> is tested, so a
  \<open>null\<close> value raises \<open>TypeError\<close> there.
\<close>

definition insertToDefinition ::
  "(string \<Rightarrow> yaml_mapping list option) \<Rightarrow> string \<Rightarrow> string \<Rightarrow> string \<Rightarrow> error + string" where
  "insertToDefinition safeLoad file key insertion =
     (case safeLoad file of
        None \<Rightarrow> Inl TypeError
      | Some mappings \<Rightarrow>
          (case find (\<lambda>m. key_value m = key) mappings of
             Some mapping \<Rightarrow>
               let end = endPosition mapping;
                   newFile = slice file 0 end @ insertion @ slice_from file end
               in (case val mapping of
                     None \<Rightarrow> Inl TypeError
                   | Some v \<Rightarrow>
                       let valueStart = startPosition v;
                           valueEnd = endPosition v
                       in if int valueEnd - int valueStart < 4
                          then Inr (slice newFile 0 valueStart @ slice_from newFile valueEnd)
                          else Inr newFile)
           | None \<Rightarrow> Inr (file @ [CHR 0x0A] @ key @ '': '' @ insertion)))"

section \<open>Example inputs\<close>

text \<open>
  A small service used to run the model: the definition file \<open>graphcool.yml\<close> and the
  type file \<open>./types.graphql\<close> exist, every other path does not, and
  \<open>readDefinition\<close> returns the given definition.
\<close>

definition example_io :: "graphcool_definition \<Rightarrow> collaborators" where
  "example_io d =
     \<lparr>readDefinition = (\<lambda>p. if p = ''graphcool.yml'' then Inr d else Inl (Error ''ENOENT'')),
      readFileSync =
        (\<lambda>p. if p = ''graphcool.yml'' then Inr ''# service''
             else if p = ''./types.graphql'' then Inr ''type User''
             else Inl (Error ''ENOENT'')),
      existsSync = (\<lambda>p. p = ''graphcool.yml'' \<or> p = ''./types.graphql''),
      path_join = (\<lambda>dir p. dir @ ''/'' @ p)\<rparr>"

definition example_config :: Config where
  "example_config = \<lparr>definitionPath = Some ''graphcool.yml'', definitionDir = ''.''\<rparr>"

definition example_service ::
  "Stages \<Rightarrow> string option \<Rightarrow> bool option \<Rightarrow> graphcool_definition" where
  "example_service s sec da =
     \<lparr>stages = s, datamodel = OnePath ''types.graphql'', secret = sec, disableAuth = da\<rparr>"

text \<open>A signer that returns its three arguments, so that they can be inspected.\<close>

definition sign_transcript ::
  "json \<Rightarrow> string option \<Rightarrow> sign_options \<Rightarrow> json \<times> string option \<times> sign_options" where
  "sign_transcript payload secretOrKey options = (payload, secretOrKey, options)"

text \<open>
  The instance after three loads of the example service into a new instance, with the
  stages \<open>{default: dev, dev: local}\<close> unless said otherwise: a load that passes with
  the secret \<open>s1\<close>; a load that stops at cluster validation because the cluster
  \<open>local\<close> is unknown; and a load of the stages \<open>{dev: staging, staging: dev}\<close>,
  whose aliases do not resolve.
\<close>

definition example_stages :: Stages where
  "example_stages = [(''default'', Str ''dev''), (''dev'', Str ''local'')]"

definition resolved_example_stages :: Stages where
  "resolved_example_stages = [(''default'', Str ''local''), (''dev'', Str ''local'')]"

definition cyclic_stages :: Stages where
  "cyclic_stages = [(''dev'', Str ''staging''), (''staging'', Str ''dev'')]"

definition state_after_load :: instance_state where
  "state_after_load =
     \<lparr>defn = Some (example_service resolved_example_stages (Some ''s1'') None),
      typesString = Some (''type User'' @ [CHR 0x0A]),
      rawStages = Some example_stages,
      secrets = Some [''s1''],
      definitionString = Some ''# service''\<rparr>"

definition state_after_failed_load :: instance_state where
  "state_after_failed_load =
     \<lparr>defn = Some (example_service resolved_example_stages (Some ''s1'') None),
      typesString = None,
      rawStages = Some example_stages,
      secrets = None,
      definitionString = Some ''# service''\<rparr>"

definition state_after_cyclic_load :: instance_state where
  "state_after_cyclic_load =
     \<lparr>defn = Some (example_service cyclic_stages (Some ''s1'') None),
      typesString = None,
      rawStages = Some cyclic_stages,
      secrets = None,
      definitionString = Some ''# service''\<rparr>"

text \<open>
  The parse trees of the texts \<open>stages:\<close> and \<open>secret:\<close>, newline, \<open>stages: {}\<close>.
  An entry without a value has the value node \<open>null\<close>.
\<close>

definition example_safeLoad :: "string \<Rightarrow> yaml_mapping list option" where
  "example_safeLoad file =
     (if file = ''stages:'' then
        Some [\<lparr>startPosition = 0, endPosition = 7, key_value = ''stages'', val = None\<rparr>]
      else if file = ''secret:'' @ [CHR 0x0A] @ ''stages: {}'' then
        Some [\<lparr>startPosition = 0, endPosition = 7, key_value = ''secret'', val = None\<rparr>,
              \<lparr>startPosition = 8, endPosition = 18, key_value = ''stages'',
               val = Some \<lparr>startPosition = 16, endPosition = 18\<rparr>\<rparr>]
      else None)"

lemmas example_defs =
  example_io_def example_config_def example_service_def new_instance_def
  example_stages_def resolved_example_stages_def cyclic_stages_def
section \<open>Properties of alias resolution\<close>

lemma truthy_iff: "truthy x \<longleftrightarrow> (\<exists>t. x = Some t \<and> truthy (Some t))"
  by (cases x) auto

lemma alias_step_iff:
  "(s, t) \<in> alias_step proto m \<longleftrightarrow> js_get proto m (key_of s) = Some t \<and> truthy (Some t)"
  by (simp add: alias_step_def)

lemma js_get_SomeD:
  "js_get proto m k = Some t \<Longrightarrow> (k, t) \<in> set m \<or> (k, t) \<in> set proto"
  by (auto simp: js_get_def split: option.splits dest: map_of_SomeD)

text \<open>
  An own entry hides the inherited property of the same name, so a lookup among the
  entries whose result is a non-empty string is followed whatever the prototype is.
\<close>

lemma own_alias_step:
  "map_of m s = Some (Str t) \<Longrightarrow> t \<noteq> [] \<Longrightarrow> (Str s, Str t) \<in> alias_step proto m"
  by (simp add: alias_step_iff js_get_def)


lemma alias_step_finite: "finite (alias_step proto m)"
proof (rule finite_subset)
  let ?K = "fst ` (set m \<union> set proto)"
  show "alias_step proto m \<subseteq> (Str ` ?K \<union> Obj ` ?K) \<times> snd ` (set m \<union> set proto)"
  proof
    fix p assume "p \<in> alias_step proto m"
    then obtain s t where p: "p = (s, t)" and g: "js_get proto m (key_of s) = Some t"
      by (auto simp: alias_step_def)
    from g have kt: "(key_of s, t) \<in> set m \<union> set proto"
      using js_get_SomeD by fastforce
    then have "key_of s \<in> ?K" and "t \<in> snd ` (set m \<union> set proto)"
      by force+
    moreover have "s = Str (key_of s) \<or> s = Obj (key_of s)"
      by (cases s) simp_all
    ultimately show "p \<in> (Str ` ?K \<union> Obj ` ?K) \<times> snd ` (set m \<union> set proto)"
      using p by auto
  qed
qed simp

text \<open>A lookup has one result, so the successor of a value on a cycle is on the cycle.\<close>

lemma on_cycle_next:
  assumes "(s, s) \<in> (alias_step proto m)\<^sup>+"
  shows "\<exists>t. (s, t) \<in> alias_step proto m \<and> (t, t) \<in> (alias_step proto m)\<^sup>+"
proof -
  from assms obtain t where st: "(s, t) \<in> alias_step proto m"
    and ts: "(t, s) \<in> (alias_step proto m)\<^sup>*"
    by (meson tranclD)
  from ts st have "(t, t) \<in> (alias_step proto m)\<^sup>+"
    by (rule rtrancl_into_trancl1)
  with st show ?thesis by blast
qed

text \<open>
  Whenever \<open>resolveStage\<close> returns, its argument is not on a cycle: by the induction
  principle of the least fixed point, a call on a cycle could only return what the call
  on the next value of the cycle returns.
\<close>

lemma resolveStage_Some_not_on_cycle:
  assumes "resolveStage proto s m = Some v"
  shows "(s, s) \<notin> (alias_step proto m)\<^sup>+"
proof (rule resolveStage.raw_induct
    [where P = "\<lambda>proto s m v. (s, s) \<notin> (alias_step proto m)\<^sup>+", OF _ assms])
  fix rec :: "prototype \<Rightarrow> jsval \<Rightarrow> Stages \<Rightarrow> jsval option" and proto stage m v
  assume IH: "\<And>proto' s' m' v'. rec proto' s' m' = Some v' \<Longrightarrow>
      (s', s') \<notin> (alias_step proto' m')\<^sup>+"
    and body: "(if truthy (js_get proto m (key_of stage))
                then rec proto (the (js_get proto m (key_of stage))) m
                else Some stage) = Some v"
  show "(stage, stage) \<notin> (alias_step proto m)\<^sup>+"
  proof
    assume "(stage, stage) \<in> (alias_step proto m)\<^sup>+"
    then obtain t where st: "(stage, t) \<in> alias_step proto m"
      and tt: "(t, t) \<in> (alias_step proto m)\<^sup>+"
      using on_cycle_next by blast
    from st have "js_get proto m (key_of stage) = Some t" "truthy (Some t)"
      by (simp_all add: alias_step_iff)
    with body have "rec proto t m = Some v" by simp
    from IH[OF this] tt show False by contradiction
  qed
qed

lemma resolveStage_cycle_None:
  "(s, s) \<in> (alias_step proto m)\<^sup>+ \<Longrightarrow> resolveStage proto s m = None"
  using resolveStage_Some_not_on_cycle by (cases "resolveStage proto s m") auto

text \<open>
  Without a cycle the followed lookups form a finite acyclic relation, whose converse
  is well-founded: \<open>resolveStage\<close> returns, and what it returns is the end of the chain.
\<close>

lemma resolveStage_acyclic:
  assumes ac: "acyclic (alias_step proto m)"
  shows "\<exists>v. resolveStage proto s m = Some v \<and> (s, v) \<in> (alias_step proto m)\<^sup>* \<and>
           terminal proto m v"
proof -
  have "wf ((alias_step proto m)\<inverse>)"
    using alias_step_finite ac by (rule finite_acyclic_wf_converse)
  then show ?thesis
  proof (induction s rule: wf_induct_rule)
    case (less s)
    show ?case
    proof (cases "truthy (js_get proto m (key_of s))")
      case True
      then obtain t where t: "js_get proto m (key_of s) = Some t" "truthy (Some t)"
        using truthy_iff by blast
      then have st: "(s, t) \<in> alias_step proto m" by (simp add: alias_step_iff)
      then have "(t, s) \<in> (alias_step proto m)\<inverse>" by simp
      from less[OF this] obtain v where v: "resolveStage proto t m = Some v"
        "(t, v) \<in> (alias_step proto m)\<^sup>*" "terminal proto m v" by blast
      have "resolveStage proto s m = resolveStage proto t m"
        using True t by (subst resolveStage.simps) simp
      moreover have "(s, v) \<in> (alias_step proto m)\<^sup>*"
        using st v(2) by (rule converse_rtrancl_into_rtrancl)
      ultimately show ?thesis using v by simp
    next
      case False
      then have "resolveStage proto s m = Some s"
        by (subst resolveStage.simps) simp
      moreover have "terminal proto m s" using False by (simp add: terminal_def)
      ultimately show ?thesis by blast
    qed
  qed
qed


lemma mapValues_Some:
  assumes "\<And>k v. (k, v) \<in> set kvs \<Longrightarrow> \<exists>w. f v = Some w \<and> P v w"
  shows "\<exists>r. mapValues f kvs = Some r \<and> list_all2 (\<lambda>(k, v) (k', w). k' = k \<and> P v w) kvs r"
  using assms
proof (induction kvs)
  case Nil
  then show ?case by simp
next
  case (Cons kv kvs)
  obtain k v where kv: "kv = (k, v)" by (cases kv)
  from Cons.prems[of k v] kv obtain w where w: "f v = Some w" "P v w" by auto
  from Cons.IH Cons.prems obtain r where r: "mapValues f kvs = Some r"
    "list_all2 (\<lambda>(k, v) (k', w). k' = k \<and> P v w) kvs r" by auto
  show ?case using kv w r by simp
qed

lemma mapValues_keys: "mapValues f kvs = Some r \<Longrightarrow> map fst r = map fst kvs"
  by (induction kvs arbitrary: r) (auto split: option.splits)

text \<open>The aliases of the stages \<open>{dev: staging, staging: dev}\<close> do not resolve.\<close>

lemma cyclic_stages_None: "resolveStageAliases proto cyclic_stages = None"
proof -
  have "(Str ''staging'', Str ''dev'') \<in> alias_step proto cyclic_stages"
    "(Str ''dev'', Str ''staging'') \<in> alias_step proto cyclic_stages"
    by (simp_all add: alias_step_iff js_get_def cyclic_stages_def)
  then have "(Str ''staging'', Str ''staging'') \<in> (alias_step proto cyclic_stages)\<^sup>+"
    by (rule trancl_into_trancl2[OF _ r_into_trancl])
  then have "resolveStage proto (Str ''staging'') cyclic_stages = None"
    by (rule resolveStage_cycle_None)
  then show ?thesis
    by (simp add: resolveStageAliases_def cyclic_stages_def)
qed

text \<open>
  A target that names a property of \<open>Object.prototype\<close> resolves to the inherited
  value: the stages \<open>{dev: constructor}\<close> resolve \<open>dev\<close> to the function \<open>Object\<close>.
\<close>

lemma inherited_target_example:
  "resolveStageAliases object_prototype [(''dev'', Str ''constructor'')]
     = Some [(''dev'', native_function ''Object'')]"
  by (simp add: resolveStageAliases_def resolveStage.simps js_get_def object_prototype_def
      native_function_def)



text \<open>
  The followed lookups of the example stages under \<open>object_prototype\<close> have no cycle:
  \<open>default\<close> leads to \<open>dev\<close>, \<open>dev\<close> to \<open>local\<close>, and an inherited name leads to a
  function or object whose conversion to a string names nothing.
\<close>

lemma inherited_values_name_nothing:
  assumes "(n, v) \<in> set object_prototype"
  shows "key_of v \<notin> fst ` set object_prototype \<and> key_of v \<noteq> ''default'' \<and>
         key_of v \<noteq> ''dev''"
  using assms by (auto simp: object_prototype_def native_function_def)

lemma example_stages_acyclic: "acyclic (alias_step object_prototype example_stages)"
proof (rule acyclicI_order)
  let ?f = "\<lambda>s. if key_of s = ''default'' then 3
                else if key_of s = ''dev'' then 2
                else if key_of s \<in> fst ` set object_prototype then 1 else (0::nat)"
  fix a b
  assume "(a, b) \<in> alias_step object_prototype example_stages"
  then have g: "js_get object_prototype example_stages (key_of a) = Some b"
    by (simp add: alias_step_iff)
  consider "key_of a = ''default''" | "key_of a = ''dev''"
    | "key_of a \<noteq> ''default''" "key_of a \<noteq> ''dev''" by blast
  then show "?f b < ?f a"
  proof cases
    case 1
    with g have "b = Str ''dev''" by (simp add: js_get_def example_stages_def)
    with 1 show ?thesis by simp
  next
    case 2
    with g have "b = Str ''local''" by (simp add: js_get_def example_stages_def)
    moreover have "''local'' \<notin> fst ` set object_prototype"
      by (simp add: object_prototype_def)
    ultimately show ?thesis using 2 by simp
  next
    case 3
    with g have "map_of object_prototype (key_of a) = Some b"
      by (simp add: js_get_def example_stages_def)
    then have m: "(key_of a, b) \<in> set object_prototype"
      by (rule map_of_SomeD)
    then have "key_of a \<in> fst ` set object_prototype" by force
    with inherited_values_name_nothing[OF m] 3 show ?thesis by simp
  qed
qed

text \<open>
  C2, as amended. For every mapping without a cycle of followed lookups,
  \<open>resolveStageAliases\<close> returns a mapping with the same keys in the same order, and
  binds every key to the end of the chain that starts at its target: a value reached
  from the target by lookups with truthy results, at which the lookup is falsy. Such a
  value names neither a key bound to a non-empty value nor a property of
  \<open>Object.prototype\<close>; it can be a key bound to the empty string, and it can be an
  inherited function or object instead of a string.
\<close>

theorem resolveStageAliases_acyclic:
  assumes "acyclic (alias_step proto m)"
  shows "\<exists>r. resolveStageAliases proto m = Some r \<and> map fst r = map fst m \<and>
           list_all2 (\<lambda>(k, t) (k', v). k' = k \<and> (t, v) \<in> (alias_step proto m)\<^sup>* \<and>
             terminal proto m v) m r"
proof -
  have "\<exists>r. mapValues (\<lambda>target. resolveStage proto target m) m = Some r \<and>
          list_all2 (\<lambda>(k, t) (k', v). k' = k \<and> (t, v) \<in> (alias_step proto m)\<^sup>* \<and>
            terminal proto m v) m r"
    by (rule mapValues_Some) (use resolveStage_acyclic[OF assms] in blast)
  then show ?thesis
    using mapValues_keys by (fastforce simp: resolveStageAliases_def)
qed

theorem resolveStageAliases_acyclic_witness:
  "acyclic (alias_step object_prototype example_stages) \<and>
   (\<exists>r. resolveStageAliases object_prototype example_stages = Some r \<and>
        map fst r = map fst example_stages \<and>
        list_all2 (\<lambda>(k, t) (k', v). k' = k \<and>
            (t, v) \<in> (alias_step object_prototype example_stages)\<^sup>* \<and>
            terminal object_prototype example_stages v)
          example_stages r)"
  using example_stages_acyclic resolveStageAliases_acyclic[OF example_stages_acyclic]
  by simp

text \<open>
  C2, as stated, fails on the acyclic mapping \<open>{dev: staging, staging: ""}\<close>: the
  resolver stops at \<open>staging\<close>, whose value is falsy, and binds \<open>dev\<close> to \<open>staging\<close>,
  which is a key of the input.
\<close>

theorem terminal_is_key_counterexample:
  "acyclic (lookup_step [(''dev'', Str ''staging''), (''staging'', Str '''')]) \<and>
   resolveStageAliases object_prototype [(''dev'', Str ''staging''), (''staging'', Str '''')]
     = Some [(''dev'', Str ''staging''), (''staging'', Str '''')] \<and>
   ''staging'' \<in> set (map fst [(''dev'', Str ''staging''), (''staging'', Str '''')])"
proof -
  have "acyclic (lookup_step [(''dev'', Str ''staging''), (''staging'', Str '''')])"
    by (rule acyclicI_order
        [where f = "\<lambda>s. if key_of s = ''dev'' then 2
                         else if key_of s = ''staging'' then 1 else (0::nat)"])
      (auto simp: lookup_step_def split: if_splits)
  moreover have
    "resolveStageAliases object_prototype [(''dev'', Str ''staging''), (''staging'', Str '''')]
     = Some [(''dev'', Str ''staging''), (''staging'', Str '''')]"
    by (simp add: resolveStageAliases_def resolveStage.simps js_get_def object_prototype_def)
  ultimately show ?thesis by simp
qed
section \<open>Properties of load\<close>

lemma load_reaches_secrets:
  assumes "passes_until_secrets proto io config env d text resolved types"
  shows "load proto io config env st =
           (if parseSecrets (secret d) = None \<and> disableAuth d \<noteq> Some True
            then Some (Error missing_secret_message) else None,
            st\<lparr>defn := Some (d\<lparr>stages := resolved\<rparr>),
               typesString := Some types,
               rawStages := Some (stages d),
               secrets := parseSecrets (secret d),
               definitionString := Some text\<rparr>)"
  using assms by (simp add: passes_until_secrets_def load_def Let_def)

lemma load_success_D:
  assumes "load proto io config env st = (None, st')"
  shows "\<exists>d resolved.
           readDefinition io (the (definitionPath config)) = Inr d \<and>
           resolveStageAliases proto (stages d) = Some resolved \<and>
           ensureOfClusters resolved env = None \<and>
           defn st' = Some (d\<lparr>stages := resolved\<rparr>) \<and>
           secrets st' = parseSecrets (secret d)"
  using assms
  by (auto simp: load_def Let_def split: if_splits sum.splits option.splits)

lemma ensureOfClusters_None_iff:
  "ensureOfClusters m env = None \<longleftrightarrow> snd ` set m \<subseteq> Str ` set (clusters env)"
  by (induction m env rule: ensureOfClusters.induct) auto

lemma js_split_not_Nil: "js_split sep s \<noteq> []"
  by (induction s) (auto split: list.splits)

text \<open>The accessors read nothing of the instance but its definition.\<close>

lemma getStage_reads_defn:
  "defn st = defn st' \<Longrightarrow> getStage proto st name throws = getStage proto st' name throws"
  by (simp add: getStage_def)

lemma default_stage_reads_defn:
  "defn st = defn st' \<Longrightarrow> default_stage proto st = default_stage proto st'"
  by (simp add: default_stage_def)

lemma resolve_example_stages:
  "resolveStageAliases object_prototype example_stages = Some resolved_example_stages"
  by (simp add: resolveStageAliases_def resolveStage.simps js_get_def object_prototype_def
      example_stages_def resolved_example_stages_def)

text \<open>The example service passes every step before the secrets, whatever its secret.\<close>

lemma example_passes:
  "passes_until_secrets object_prototype
     (example_io (example_service example_stages sec da))
     example_config \<lparr>clusters = [''local'']\<rparr>
     (example_service example_stages sec da)
     ''# service'' resolved_example_stages (''type User'' @ [CHR 0x0A])"
  by (simp add: passes_until_secrets_def resolve_example_stages example_io_def
      example_config_def example_service_def getTypesString_def resolved_example_stages_def)

lemma successful_load_example:
  "load object_prototype (example_io (example_service example_stages (Some ''s1'') None))
      example_config \<lparr>clusters = [''local'']\<rparr> new_instance
   = (None, state_after_load)"
  by (subst load_reaches_secrets[OF example_passes])
    (simp add: state_after_load_def example_service_def new_instance_def parseSecrets_def
      removeWhitespace_def isSpace_def)

lemma failed_load_example:
  "load object_prototype (example_io (example_service example_stages (Some ''s1'') None))
      example_config \<lparr>clusters = [''eu-west'']\<rparr> new_instance
   = (Some (Error (cluster_message ''local'' ''default'')), state_after_failed_load)"
proof -
  have "stages (example_service example_stages (Some ''s1'') None) = example_stages"
    by (simp add: example_service_def)
  then show ?thesis
    by (simp add: load_def resolve_example_stages example_io_def example_config_def
        new_instance_def state_after_failed_load_def Let_def)
      (simp add: example_service_def resolved_example_stages_def)
qed

lemma cyclic_load_example:
  "load object_prototype (example_io (example_service cyclic_stages (Some ''s1'') None))
      example_config \<lparr>clusters = [''local'']\<rparr> new_instance
   = (Some RangeError, state_after_cyclic_load)"
  by (simp add: load_def cyclic_stages_None example_io_def example_config_def
      example_service_def new_instance_def state_after_cyclic_load_def Let_def)

text \<open>
  C3, as amended. \<open>load\<close> assigns the fields of the instance as it goes and restores
  nothing when it throws. A load that fails because no definition path is configured or
  because \<open>readDefinition\<close> throws leaves the instance as it was, so \<open>getStage\<close> and
  \<open>default\<close> answer as before the load. A load that fails at a later step leaves a
  definition on the instance, which \<open>getStage\<close> and \<open>default\<close> read: if reading the
  text of the file fails, the parsed definition is assigned and nothing else; if alias
  resolution does not return, the load fails with \<open>RangeError\<close>, and the parsed
  definition with its unresolved stages, the text and the raw stages are assigned; if
  cluster validation, schema assembly or the secret check fails, the parsed definition
  with its stages resolved, the text and the raw stages are assigned.
\<close>

theorem load_failure_state:
  assumes "load proto io config env st = (Some e, st')"
  shows "(\<not> truthy_string (definitionPath config) \<and> e = Error no_definition_message \<and>
          st' = st) \<or>
         (truthy_string (definitionPath config) \<and>
          readDefinition io (the (definitionPath config)) = Inl e \<and> st' = st) \<or>
         (\<exists>d. truthy_string (definitionPath config) \<and>
              readDefinition io (the (definitionPath config)) = Inr d \<and>
              (readFileSync io (the (definitionPath config)) = Inl e \<and>
               st' = st\<lparr>defn := Some d\<rparr> \<or>
               (\<exists>text. readFileSync io (the (definitionPath config)) = Inr text \<and>
                  (resolveStageAliases proto (stages d) = None \<and> e = RangeError \<and>
                   st' = st\<lparr>defn := Some d, definitionString := Some text,
                            rawStages := Some (stages d)\<rparr> \<or>
                   (\<exists>resolved. resolveStageAliases proto (stages d) = Some resolved \<and>
                      defn st' = Some (d\<lparr>stages := resolved\<rparr>) \<and>
                      definitionString st' = Some text \<and>
                      rawStages st' = Some (stages d))))))"
  using assms
  by (auto simp: load_def Let_def split: if_splits sum.splits option.splits)

theorem load_failure_state_witness:
  "load object_prototype (example_io (example_service example_stages (Some ''s1'') None))
      example_config \<lparr>clusters = [''eu-west'']\<rparr> new_instance
     = (Some (Error (cluster_message ''local'' ''default'')), state_after_failed_load) \<and>
   defn state_after_failed_load =
     Some (example_service resolved_example_stages (Some ''s1'') None) \<and>
   load object_prototype (example_io (example_service cyclic_stages (Some ''s1'') None))
      example_config \<lparr>clusters = [''local'']\<rparr> new_instance
     = (Some RangeError, state_after_cyclic_load) \<and>
   defn state_after_cyclic_load = Some (example_service cyclic_stages (Some ''s1'') None)"
  using load_failure_state[OF failed_load_example] load_failure_state[OF cyclic_load_example]
  by (simp add: failed_load_example cyclic_load_example state_after_failed_load_def
      state_after_cyclic_load_def)

text \<open>
  C3, as stated, fails when the cluster of the example service is unknown: the load
  throws at cluster validation, and afterwards \<open>getStage\<close> and \<open>default\<close> return the
  cluster \<open>local\<close>, where before the load they returned \<open>undefined\<close> and \<open>null\<close>.
\<close>

theorem partial_definition_counterexample:
  "load object_prototype (example_io (example_service example_stages (Some ''s1'') None))
      example_config \<lparr>clusters = [''eu-west'']\<rparr> new_instance
     = (Some (Error (cluster_message ''local'' ''default'')), state_after_failed_load) \<and>
   getStage object_prototype new_instance ''dev'' False = Inr None \<and>
   getStage object_prototype state_after_failed_load ''dev'' False = Inr (Some (Str ''local'')) \<and>
   default_stage object_prototype new_instance = None \<and>
   default_stage object_prototype state_after_failed_load = Some (Str ''local'')"
proof -
  have "getStage object_prototype new_instance ''dev'' False = Inr None"
    "default_stage object_prototype new_instance = None"
    by (simp_all add: getStage_def default_stage_def new_instance_def)
  moreover have
    "getStage object_prototype state_after_failed_load ''dev'' False = Inr (Some (Str ''local''))"
    "default_stage object_prototype state_after_failed_load = Some (Str ''local'')"
    by (simp_all add: getStage_def default_stage_def state_after_failed_load_def
        example_service_def resolved_example_stages_def js_get_def)
  ultimately show ?thesis
    using failed_load_example by simp
qed

text \<open>
  C4, as amended. When the steps before the secrets pass and \<open>secret\<close> is present, the
  load fails only if \<open>secret\<close> is the empty string and \<open>disableAuth\<close> is not true: the
  empty string is falsy and is treated as an absent secret (with \<open>disableAuth: true\<close>
  the load passes with \<open>secrets = null\<close>). Every non-empty \<open>secret\<close> is accepted, and
  \<open>secrets\<close> is then the string without its whitespace, split at the commas; that list
  is never empty, and nothing checks that its elements are non-empty.
\<close>

theorem load_secret_present:
  assumes "passes_until_secrets proto io config env d text resolved types"
    and "secret d = Some s"
  shows "\<exists>st'. load proto io config env st =
           (if s = [] \<and> disableAuth d \<noteq> Some True
            then Some (Error missing_secret_message) else None, st') \<and>
         secrets st' =
           (if s = [] then None else Some (js_split (CHR '','') (removeWhitespace s))) \<and>
         secrets st' \<noteq> Some []"
  using assms by (auto simp: load_reaches_secrets parseSecrets_def js_split_not_Nil)

theorem load_secret_present_witness:
  "passes_until_secrets object_prototype
     (example_io (example_service example_stages (Some ''a, b , c'') None))
     example_config \<lparr>clusters = [''local'']\<rparr>
     (example_service example_stages (Some ''a, b , c'') None)
     ''# service'' resolved_example_stages (''type User'' @ [CHR 0x0A]) \<and>
   secret (example_service example_stages (Some ''a, b , c'') None) = Some ''a, b , c'' \<and>
   (\<exists>st'. load object_prototype
            (example_io (example_service example_stages (Some ''a, b , c'') None))
            example_config \<lparr>clusters = [''local'']\<rparr> new_instance = (None, st') \<and>
          secrets st' = Some [''a'', ''b'', ''c''])"
proof -
  have s: "secret (example_service example_stages (Some ''a, b , c'') None) = Some ''a, b , c''"
    by (simp add: example_service_def)
  have p: "js_split (CHR '','') (removeWhitespace ''a, b , c'') = [''a'', ''b'', ''c'']"
    by (simp add: removeWhitespace_def isSpace_def)
  from load_secret_present[OF example_passes s, of new_instance] example_passes s p
  show ?thesis by auto
qed

text \<open>
  C4, as stated, fails on the secret \<open>" "\<close>: without its whitespace it is the empty
  string, which splits into the single empty piece, so it yields no secret; the load
  passes, with \<open>disableAuth\<close> absent, and \<open>secrets\<close> is the list of the empty string.
\<close>

theorem blank_secret_counterexample:
  "js_split (CHR '','') (removeWhitespace '' '') = [''''] \<and>
   load object_prototype (example_io (example_service example_stages (Some '' '') None))
      example_config \<lparr>clusters = [''local'']\<rparr> new_instance
   = (None,
       \<lparr>defn = Some (example_service resolved_example_stages (Some '' '') None),
        typesString = Some (''type User'' @ [CHR 0x0A]),
        rawStages = Some example_stages,
        secrets = Some [''''],
        definitionString = Some ''# service''\<rparr>)"
  by (subst load_reaches_secrets[OF example_passes])
    (simp add: example_service_def new_instance_def parseSecrets_def removeWhitespace_def
      isSpace_def)

text \<open>
  C5. When the steps before the secrets pass and \<open>secret\<close> is absent, the load fails
  with the missing-secret error if and only if \<open>disableAuth\<close> is not true; when
  \<open>disableAuth\<close> is true it passes without an error. In both cases \<open>secrets\<close> is
  \<open>null\<close> afterwards.
\<close>

theorem load_secret_absent:
  assumes "passes_until_secrets proto io config env d text resolved types"
    and "secret d = None"
  shows "\<exists>st'. load proto io config env st =
           (if disableAuth d = Some True then None
            else Some (Error missing_secret_message), st') \<and>
         secrets st' = None"
  using assms by (auto simp: load_reaches_secrets parseSecrets_def)

theorem load_secret_absent_witness:
  "passes_until_secrets object_prototype
     (example_io (example_service example_stages None (Some True)))
     example_config \<lparr>clusters = [''local'']\<rparr>
     (example_service example_stages None (Some True))
     ''# service'' resolved_example_stages (''type User'' @ [CHR 0x0A]) \<and>
   secret (example_service example_stages None (Some True)) = None \<and>
   (\<exists>st'. load object_prototype (example_io (example_service example_stages None (Some True)))
            example_config \<lparr>clusters = [''local'']\<rparr> new_instance = (None, st') \<and>
          secrets st' = None) \<and>
   (\<exists>st'. load object_prototype (example_io (example_service example_stages None None))
            example_config \<lparr>clusters = [''local'']\<rparr> new_instance
            = (Some (Error missing_secret_message), st') \<and>
          secrets st' = None)"
proof -
  have s: "secret (example_service example_stages None da) = None" for da
    by (simp add: example_service_def)
  have "disableAuth (example_service example_stages None da) = da" for da
    by (simp add: example_service_def)
  with load_secret_absent[OF example_passes s, of "Some True" new_instance]
    load_secret_absent[OF example_passes s, of None new_instance]
    example_passes s
  show ?thesis by simp
qed
section \<open>Properties of the accessors\<close>

text \<open>
  C9, as amended. After a load that passes, the instance holds the parsed definition
  with its stages resolved, and every resolved value is the name of a known cluster.
  \<open>getStage name throws\<close> looks \<open>name\<close> up in the resolved stages as a property of a
  plain object: what it finds is the cluster bound to \<open>name\<close> or, when \<open>name\<close> is not
  a key, the property \<open>name\<close> of \<open>Object.prototype\<close>, if there is one. It returns what
  it finds if that is truthy; otherwise (nothing found, or a key bound to the empty
  string) what it finds in the same way for \<open>default\<close>, if that is truthy; otherwise it
  fails with \<open>StageNotFound name\<close> exactly when \<open>throws\<close> is true, and else returns the
  falsy value found for \<open>default\<close>, which is \<open>undefined\<close> when nothing is found.
\<close>

theorem getStage_after_load:
  assumes "load proto io config env st = (None, st')"
  shows "\<exists>d resolved.
           readDefinition io (the (definitionPath config)) = Inr d \<and>
           resolveStageAliases proto (stages d) = Some resolved \<and>
           snd ` set resolved \<subseteq> Str ` set (clusters env) \<and>
           defn st' = Some (d\<lparr>stages := resolved\<rparr>) \<and>
           getStage proto st' name throws =
             (if truthy (js_get proto resolved name) then Inr (js_get proto resolved name)
              else if truthy (js_get proto resolved ''default'')
                then Inr (js_get proto resolved ''default'')
              else if throws then Inl (StageNotFound name)
              else Inr (js_get proto resolved ''default''))"
proof -
  from load_success_D[OF assms] obtain d resolved where
    d: "readDefinition io (the (definitionPath config)) = Inr d"
    and r: "resolveStageAliases proto (stages d) = Some resolved"
    and c: "ensureOfClusters resolved env = None"
    and s: "defn st' = Some (d\<lparr>stages := resolved\<rparr>)"
    by blast
  from c have "snd ` set resolved \<subseteq> Str ` set (clusters env)"
    by (simp add: ensureOfClusters_None_iff)
  moreover from s have "getStage proto st' name throws =
             (if truthy (js_get proto resolved name) then Inr (js_get proto resolved name)
              else if truthy (js_get proto resolved ''default'')
                then Inr (js_get proto resolved ''default'')
              else if throws then Inl (StageNotFound name)
              else Inr (js_get proto resolved ''default''))"
    by (simp add: getStage_def Let_def)
  ultimately show ?thesis using d r s by blast
qed

theorem getStage_after_load_witness:
  "load object_prototype (example_io (example_service example_stages (Some ''s1'') None))
      example_config \<lparr>clusters = [''local'']\<rparr> new_instance
     = (None, state_after_load) \<and>
   getStage object_prototype state_after_load ''staging'' True = Inr (Some (Str ''local'')) \<and>
   getStage object_prototype state_after_load ''dev'' True = Inr (Some (Str ''local''))"
proof -
  let ?d = "example_service example_stages (Some ''s1'') None"
  have h: "load object_prototype (example_io ?d) example_config \<lparr>clusters = [''local'']\<rparr>
      new_instance = (None, state_after_load)"
    by (rule successful_load_example)
  have g: "getStage object_prototype state_after_load name True =
        (if truthy (js_get object_prototype resolved_example_stages name)
         then Inr (js_get object_prototype resolved_example_stages name)
         else if truthy (js_get object_prototype resolved_example_stages ''default'')
           then Inr (js_get object_prototype resolved_example_stages ''default'')
         else Inl (StageNotFound name))" for name
  proof -
    from getStage_after_load[OF h, of name True] obtain d resolved where
      rd: "readDefinition (example_io ?d) (the (definitionPath example_config)) = Inr d"
      and rs: "resolveStageAliases object_prototype (stages d) = Some resolved"
      and gs: "getStage object_prototype state_after_load name True =
        (if truthy (js_get object_prototype resolved name)
         then Inr (js_get object_prototype resolved name)
         else if truthy (js_get object_prototype resolved ''default'')
           then Inr (js_get object_prototype resolved ''default'')
         else if True then Inl (StageNotFound name)
         else Inr (js_get object_prototype resolved ''default''))"
      by blast
    from rd have "stages d = example_stages"
      by (auto simp: example_io_def example_config_def example_service_def)
    with rs have "resolved = resolved_example_stages"
      by (simp add: resolve_example_stages)
    with gs show ?thesis by simp
  qed
  have "getStage object_prototype state_after_load ''staging'' True = Inr (Some (Str ''local''))"
    by (subst g) (simp add: js_get_def resolved_example_stages_def object_prototype_def)
  moreover have
    "getStage object_prototype state_after_load ''dev'' True = Inr (Some (Str ''local''))"
    by (subst g) (simp add: js_get_def resolved_example_stages_def object_prototype_def)
  ultimately show ?thesis using h by simp
qed

text \<open>
  C9, as stated, fails for the name \<open>constructor\<close>: the load passes, \<open>constructor\<close>
  is not a key of the resolved stages, and \<open>getStage\<close> returns the function \<open>Object\<close>
  that the stages inherit, not the cluster \<open>local\<close> bound to \<open>default\<close>.
\<close>

theorem inherited_stage_counterexample:
  "load object_prototype (example_io (example_service example_stages (Some ''s1'') None))
      example_config \<lparr>clusters = [''local'']\<rparr> new_instance
     = (None, state_after_load) \<and>
   map_option stages (defn state_after_load) = Some resolved_example_stages \<and>
   ''constructor'' \<notin> set (map fst resolved_example_stages) \<and>
   map_of resolved_example_stages ''default'' = Some (Str ''local'') \<and>
   getStage object_prototype state_after_load ''constructor'' False
     = Inr (Some (native_function ''Object''))"
proof -
  have "getStage object_prototype state_after_load ''constructor'' False
     = Inr (Some (native_function ''Object''))"
    by (simp add: getStage_def state_after_load_def example_service_def
        resolved_example_stages_def js_get_def object_prototype_def native_function_def)
  moreover have "map_option stages (defn state_after_load) = Some resolved_example_stages"
    by (simp add: state_after_load_def example_service_def)
  moreover have "''constructor'' \<notin> set (map fst resolved_example_stages)"
    "map_of resolved_example_stages ''default'' = Some (Str ''local'')"
    by (simp_all add: resolved_example_stages_def)
  ultimately show ?thesis using successful_load_example by simp
qed

section \<open>Properties of token issuance\<close>

text \<open>
  C6, as amended. For every service name and stage name, \<open>getToken\<close> returns
  \<open>undefined\<close> when \<open>secrets\<close> is \<open>null\<close>; otherwise it returns what \<open>jwt.sign\<close>
  returns for the first element of \<open>secrets\<close>, the option \<open>expiresIn: '1h'\<close> and the
  payload \<open>{ data: { service: "<serviceName>@<stageName>", roles: ["admin"] } }\<close>: the
  service and the roles are nested under the key \<open>data\<close>.
\<close>

theorem getToken_result:
  "snd (getToken jwt_sign st serviceName stageName) =
     (case secrets st of
        None \<Rightarrow> None
      | Some ss \<Rightarrow>
          Some (jwt_sign
            (JObject [(''data'',
               JObject [(''service'', JString (serviceName @ ''@'' @ stageName)),
                        (''roles'', JArray [JString ''admin''])])])
            (case ss of [] \<Rightarrow> None | s # _ \<Rightarrow> Some s)
            \<lparr>expiresIn = ''1h''\<rparr>))"
  by (simp add: getToken_def Let_def split: option.splits)

theorem getToken_result_witness:
  "snd (getToken sign_transcript new_instance ''myservice'' ''prod'') = None \<and>
   snd (getToken sign_transcript state_after_load ''myservice'' ''prod'') =
     Some (JObject [(''data'',
             JObject [(''service'', JString ''myservice@prod''),
                      (''roles'', JArray [JString ''admin''])])],
           Some ''s1'', \<lparr>expiresIn = ''1h''\<rparr>)"
  using getToken_result[of sign_transcript new_instance "''myservice''" "''prod''"]
    getToken_result[of sign_transcript state_after_load "''myservice''" "''prod''"]
  by (simp add: new_instance_def state_after_load_def sign_transcript_def)

text \<open>
  C6, as stated, fails on the secrets \<open>["s1"]\<close>: what is signed for \<open>myservice\<close> and
  \<open>prod\<close> is not the payload \<open>{ service: "myservice@prod", roles: ["admin"] }\<close>.
\<close>

theorem token_payload_counterexample:
  "snd (getToken sign_transcript state_after_load ''myservice'' ''prod'') \<noteq>
     Some (sign_transcript
       (JObject [(''service'', JString ''myservice@prod''),
                 (''roles'', JArray [JString ''admin''])])
       (Some ''s1'') \<lparr>expiresIn = ''1h''\<rparr>)"
  by (simp add: getToken_def state_after_load_def sign_transcript_def Let_def)

text \<open>
  C7 does not hold of the source: with the secrets \<open>["s1"]\<close>, \<open>getToken\<close> for
  \<open>myservice\<close> and \<open>prod\<close> passes the payload with the claims and the signing secret
  \<open>s1\<close> to \<open>console.log\<close> before it signs.
\<close>

theorem getToken_logs_secret:
  "fst (getToken sign_transcript state_after_load ''myservice'' ''prod'') =
     [(JObject [(''data'',
          JObject [(''service'', JString ''myservice@prod''),
                   (''roles'', JArray [JString ''admin''])])],
       Some ''s1'')]"
  by (simp add: getToken_def state_after_load_def Let_def)

section \<open>Properties of the patch\<close>

text \<open>
  Where the entry is found and has a value node whose positions lie within the entry,
  and where no entry is found, the patch is the one described: the insertion goes to the
  end of the entry, a value shorter than four positions is removed, and a missing entry
  is appended after a newline. Nothing else of the text changes.
\<close>

lemma insertToDefinition_no_entry:
  assumes "safeLoad file = Some mappings"
    and "find (\<lambda>m. key_value m = key) mappings = None"
  shows "insertToDefinition safeLoad file key insertion
           = Inr (file @ [CHR 0x0A] @ key @ '': '' @ insertion)"
  using assms by (simp add: insertToDefinition_def)

lemma insertToDefinition_value_present:
  assumes "safeLoad file = Some mappings"
    and "find (\<lambda>m. key_value m = key) mappings = Some mapping"
    and "val mapping = Some v"
    and "startPosition v \<le> endPosition v"
    and "endPosition v \<le> endPosition mapping"
    and "endPosition mapping \<le> length file"
  shows "insertToDefinition safeLoad file key insertion =
           Inr (if endPosition v - startPosition v < 4
                then take (startPosition v) file @
                     drop (endPosition v) (take (endPosition mapping) file) @
                     insertion @ drop (endPosition mapping) file
                else take (endPosition mapping) file @ insertion @
                     drop (endPosition mapping) file)"
  using assms
  by (auto simp: insertToDefinition_def Let_def slice_def slice_from_def min_def)

text \<open>
  C8 does not hold of the source for an entry without a value: on the text \<open>stages:\<close>
  the entry \<open>stages\<close> exists, and the patch raises \<open>TypeError\<close> instead of inserting
  the new stage after the entry.
\<close>

theorem insertToDefinition_empty_stages:
  "insertToDefinition example_safeLoad ''stages:'' ''stages'' ([CHR 0x0A] @ ''  dev: local'')
     = Inl TypeError"
  by (simp add: insertToDefinition_def example_safeLoad_def Let_def)

text \<open>
  C10. Whenever the text has a top-level entry with the given key and the value node
  of the first such entry is \<open>null\<close>, the patch raises \<open>TypeError\<close> and returns no
  text: \<open>mapping.value.startPosition\<close> is read before \<open>mapping.value\<close> is tested.
\<close>

theorem insertToDefinition_null_value:
  assumes "safeLoad file = Some mappings"
    and "find (\<lambda>m. key_value m = key) mappings = Some mapping"
    and "val mapping = None"
  shows "insertToDefinition safeLoad file key insertion = Inl TypeError"
  using assms by (simp add: insertToDefinition_def Let_def)

theorem insertToDefinition_null_value_witness:
  "example_safeLoad (''secret:'' @ [CHR 0x0A] @ ''stages: {}'') =
     Some [\<lparr>startPosition = 0, endPosition = 7, key_value = ''secret'', val = None\<rparr>,
           \<lparr>startPosition = 8, endPosition = 18, key_value = ''stages'',
            val = Some \<lparr>startPosition = 16, endPosition = 18\<rparr>\<rparr>] \<and>
   find (\<lambda>m. key_value m = ''secret'')
     [\<lparr>startPosition = 0, endPosition = 7, key_value = ''secret'', val = None\<rparr>,
      \<lparr>startPosition = 8, endPosition = 18, key_value = ''stages'',
       val = Some \<lparr>startPosition = 16, endPosition = 18\<rparr>\<rparr>]
     = Some \<lparr>startPosition = 0, endPosition = 7, key_value = ''secret'', val = None\<rparr> \<and>
   val \<lparr>startPosition = 0, endPosition = 7, key_value = ''secret'', val = None\<rparr> = None \<and>
   insertToDefinition example_safeLoad (''secret:'' @ [CHR 0x0A] @ ''stages: {}'')
     ''secret'' '' s1'' = Inl TypeError"
proof -
  have a: "example_safeLoad (''secret:'' @ [CHR 0x0A] @ ''stages: {}'') =
     Some [\<lparr>startPosition = 0, endPosition = 7, key_value = ''secret'', val = None\<rparr>,
           \<lparr>startPosition = 8, endPosition = 18, key_value = ''stages'',
            val = Some \<lparr>startPosition = 16, endPosition = 18\<rparr>\<rparr>]"
    by (simp add: example_safeLoad_def)
  have b: "find (\<lambda>m. key_value m = ''secret'')
     [\<lparr>startPosition = 0, endPosition = 7, key_value = ''secret'', val = None\<rparr>,
      \<lparr>startPosition = 8, endPosition = 18, key_value = ''stages'',
       val = Some \<lparr>startPosition = 16, endPosition = 18\<rparr>\<rparr>]
     = Some \<lparr>startPosition = 0, endPosition = 7, key_value = ''secret'', val = None\<rparr>"
    by simp
  have c: "val \<lparr>startPosition = 0, endPosition = 7, key_value = ''secret'', val = None\<rparr> = None"
    by simp
  from a b c insertToDefinition_null_value
      [where safeLoad = example_safeLoad and insertion = "'' s1''", OF a b c]
  show ?thesis by simp
qed

end
